theory Spec2Isabelle
  imports Main "HOL-Library.AList"
begin

section \<open>The job state of the pipeline manager\<close>

text \<open>
  The stage and type vocabularies of a job. The Go declarations are string-typed
  constants of package \<open>job\<close>/\<open>manager\<close>; the two files of this development name
  exactly these constants.
\<close>

datatype JobStage =
    JobStage_Queued
  | JobStage_Dequeued
  | JobStage_Started
  | JobStage_Waiting
  | JobStage_Delayed
  | JobStage_Skipped
  | JobStage_Failed
  | JobStage_Canceled
  | JobStage_Completed

datatype JobType =
    JobType_Deploy
  | JobType_Anchor
  | JobType_TestE2E
  | JobType_TestSmoke

text \<open>
  Go errors. The two timeout errors are the package values \<open>manager.Error_StartupTimeout\<close>
  and \<open>manager.Error_CompletionTimeout\<close>; \<open>Errorf\<close> is an error built by
  \<open>fmt.Errorf\<close> from its message; \<open>ExternalCallError\<close> is an error handed back by
  the task backend or the store.
\<close>

datatype error =
    Error_StartupTimeout
  | Error_CompletionTimeout
  | Errorf string
  | ExternalCallError string

text \<open>
  The keys of \<open>Params\<close> that the two files read and write, together with
  \<open>JobParam_Error\<close>, the error-description field of the transition primitive; and the
  values of the heterogeneous bag (\<open>map[string]interface{}\<close>): a type assertion
  \<open>.(string)\<close> succeeds on \<open>VString\<close> only.
\<close>

datatype JobParam =
    JobParam_Id
  | JobParam_Start
  | JobParam_Error
  | JobParam_Component
  | JobParam_Sha
  | JobParam_Manual

datatype val =
    VString string
  | VInt int
  | VBool bool
  | VError error

text \<open>
  A Go map is either the nil map or an allocated map with its entries. Indexing the nil map
  answers as for an absent key; assigning into the nil map panics (\<open>None\<close>), assigning
  into an allocated map stores the entry.
\<close>

datatype ('k, 'v) gomap = NilMap | MakeMap "'k \<rightharpoonup> 'v"

fun mapEntries :: "('k, 'v) gomap \<Rightarrow> ('k \<rightharpoonup> 'v)" where
  "mapEntries NilMap = Map.empty"
| "mapEntries (MakeMap entries) = entries"

definition mapIndex :: "('k, 'v) gomap \<Rightarrow> 'k \<Rightarrow> 'v option" where
  "mapIndex m k = mapEntries m k"

fun mapAssign :: "('k, 'v) gomap \<Rightarrow> 'k \<Rightarrow> 'v \<Rightarrow> ('k, 'v) gomap option" where
  "mapAssign NilMap k v = None"
| "mapAssign (MakeMap entries) k v = Some (MakeMap (entries(k \<mapsto> v)))"

text \<open>
  \<open>JobState\<close>: timestamps are nanoseconds on the integer line (\<open>UnixNano\<close>), the
  parameter bag is a Go map, possibly nil.
\<close>

record JobState =
  JobId :: string
  Type :: JobType
  Stage :: JobStage
  Ts :: int
  Params :: "(JobParam, val) gomap"

section \<open>External collaborators\<close>

typedecl overrides

text \<open>
  The task-control backend. \<open>LaunchTask cluster family container networkConfig overrides\<close>
  answers a task identifier or an error; \<open>CheckTask cluster taskDefId running stable taskId\<close>
  answers whether the task matches the expectation, or an error.
\<close>

record Deployment =
  LaunchTask :: "string \<Rightarrow> string \<Rightarrow> string \<Rightarrow> string \<Rightarrow> overrides option \<Rightarrow> error + string"
  CheckTask :: "string \<Rightarrow> string \<Rightarrow> bool \<Rightarrow> bool \<Rightarrow> string \<Rightarrow> error + bool"

text \<open>
  The store: the outcome of saving a job state, and the per-component deploy hashes, a Go
  map (possibly nil) or an error.
\<close>

record Database =
  SaveJob :: "JobState \<Rightarrow> error option"
  GetDeployHashes :: "error + (string, string) gomap"

text \<open>
  Every call that leaves the engine during one invocation, in the order it is made.
\<close>

datatype call =
    Call_LaunchTask string string string string "overrides option"
  | Call_CheckTask string string bool bool string
  | Call_SaveJob JobState
  | Call_NotifyJob JobState

text \<open>
  The readings of \<open>time.Now()\<close> during one invocation of \<open>Advance\<close>: the one that
  opens \<open>Advance\<close>, the one stored as the subtask start time after a launch, and the one
  the timeout policy takes.
\<close>

record readings =
  now_Advance :: int
  now_Start :: int
  now_IsTimedOut :: int

text \<open>
  Constants and helpers of package \<open>manager\<close> that the two files use and whose
  declarations are elsewhere in the repository: they are parameters. \<open>StageString\<close>
  is the string behind a stage constant, \<open>NotifField\<close> the conversion
  \<open>manager.NotifField(jobType)\<close>.
\<close>

record manager =
  DefaultWaitTime :: int
  PrintJob :: "JobState \<Rightarrow> string"
  IsActiveJob :: "JobState \<Rightarrow> bool"
  StageString :: "JobStage \<Rightarrow> string"
  NotifField_JobId :: string
  NotifField_CommitHashes :: string
  NotifField_Time :: string
  NotifField :: "JobType \<Rightarrow> string"
  DeployComponent_Ceramic :: string
  DeployComponent_Cas :: string
  DeployComponent_Ipfs :: string
  ComponentRepo :: "string \<Rightarrow> string"
  GitHubOrg :: string
  CommitHashRegex :: string

text \<open>
  The two functions of Go's standard library that the notification code calls:
  \<open>regexp.MatchString pattern s\<close> (its error is dropped by the caller) and
  \<open>Time.Format(time.RFC1123)\<close>.
\<close>

record golib =
  MatchString :: "string \<Rightarrow> string \<Rightarrow> bool"
  Format_RFC1123 :: "int \<Rightarrow> string"

section \<open>Timeout policy\<close>

text \<open>
  Modelled from the spec: \<open>job.IsTimedOut\<close> is not in the two source files. The spec
  (section 4.3) gives it as \<open>IsTimedOut(state, threshold) = (now - state.Ts) > threshold\<close>,
  a function of the state's last-transition timestamp and the wall clock; the threshold is a
  \<open>time.Duration\<close>, a signed number of nanoseconds.
\<close>

definition IsTimedOut :: "int \<Rightarrow> JobState \<Rightarrow> int \<Rightarrow> bool" where
  "IsTimedOut now jobState threshold \<longleftrightarrow> now - Ts jobState > threshold"

section \<open>Transition primitive\<close>

text \<open>
  Modelled from the spec: \<open>baseJob.advance\<close> is not in the two source files. The spec
  (section 4.2) says that, given a target stage, a timestamp and an optional error, it
  copies the input state and overwrites Stage, Ts and, if an error is present, an
  error-description field inside Params; writes the new state through to the store; forwards
  it once to the notification consumer; and returns the new state whatever the store answers.
  The new state is a copy: when an error is present its parameter bag is a fresh map that
  holds the entries of the input's bag (none for a nil bag) and the description.
  The spec does not say which error accompanies the returned state: the model hands back
  the store's answer, and nothing below depends on it.
\<close>

definition advance ::
  "Database \<Rightarrow> JobState \<Rightarrow> JobStage \<Rightarrow> int \<Rightarrow> error option \<Rightarrow> call list \<times> (JobState \<times> error option)" where
  "advance dbase jobState stage ts e =
     (let next = jobState\<lparr>Stage := stage, Ts := ts,
                   Params := (case e of None \<Rightarrow> Params jobState
                              | Some err \<Rightarrow>
                                  MakeMap ((mapEntries (Params jobState))
                                             (JobParam_Error \<mapsto> VError err)))\<rparr>
      in ([Call_SaveJob next, Call_NotifyJob next], (next, SaveJob dbase next)))"

section \<open>The smoke-test job\<close>

definition Minute :: int where
  "Minute = 60 * 1000000000"

definition smokeTestFailureTime :: int where
  "smokeTestFailureTime = 15 * Minute"

definition ClusterName :: string where
  "ClusterName = ''ceramic-qa-tests''"

definition FamilyPrefix :: string where
  "FamilyPrefix = ''ceramic-qa-tests-smoke--''"

definition ContainerName :: string where
  "ContainerName = ''ceramic-qa-tests-smoke''"

definition NetworkConfigurationParameter :: string where
  "NetworkConfigurationParameter = ''/ceramic-qa-tests-smoke/network_configuration''"

text \<open>
  The job: the state and the store of the embedded \<open>baseJob\<close>, the environment name
  read by the constructor, and the backend. The notification consumer of \<open>baseJob\<close>
  shows as the \<open>Call_NotifyJob\<close> entries of the calls made.
\<close>

record smokeTestJob =
  state :: JobState
  db :: Database
  env :: string
  d :: Deployment

text \<open>
  \<open>checkTests\<close>: the result is the calls made and what the function returns, \<open>None\<close>
  when it panics. The argument \<open>s.state.Params[job.JobParam_Id].(string)\<close> is evaluated
  before \<open>CheckTask\<close> is called, and the type assertion panics unless the parameter is a
  string.
\<close>

definition checkTests ::
  "manager \<Rightarrow> readings \<Rightarrow> smokeTestJob \<Rightarrow> bool \<Rightarrow> call list \<times> (bool \<times> error option) option" where
  "checkTests m r s expectedToBeRunning =
     (case mapIndex (Params (state s)) JobParam_Id of
        Some (VString taskId) \<Rightarrow>
          ([Call_CheckTask ClusterName [] expectedToBeRunning False taskId],
           Some (case CheckTask (d s) ClusterName [] expectedToBeRunning False taskId of
                   Inl err \<Rightarrow> (False, Some err)
                 | Inr status \<Rightarrow>
                     if status then (True, None)
                     else if expectedToBeRunning
                             \<and> IsTimedOut (now_IsTimedOut r) (state s) (DefaultWaitTime m)
                       then (False, Some Error_StartupTimeout)
                     else if \<not> expectedToBeRunning
                             \<and> IsTimedOut (now_IsTimedOut r) (state s) smokeTestFailureTime
                       then (False, Some Error_CompletionTimeout)
                     else (False, None)))
      | _ \<Rightarrow> ([], None))"

text \<open>
  Returning what the transition primitive returns, after the calls already made.
\<close>

definition traced :: "call list \<Rightarrow> call list \<times> 'a \<Rightarrow> call list \<times> 'a option" where
  "traced before res = (before @ fst res, Some (snd res))"

text \<open>
  \<open>Advance\<close>: one step of the smoke-test job. The result is the calls made and the pair
  the function returns, \<open>None\<close> when it panics. After a successful launch the two
  assignments into \<open>s.state.Params\<close> panic when the bag is the nil map.
\<close>

definition Advance ::
  "manager \<Rightarrow> readings \<Rightarrow> smokeTestJob \<Rightarrow> call list \<times> (JobState \<times> error option) option" where
  "Advance m r s =
     (let now = now_Advance r in
      case Stage (state s) of
        JobStage_Queued \<Rightarrow>
          traced [] (advance (db s) (state s) JobStage_Dequeued (Ts (state s)) None)
      | JobStage_Dequeued \<Rightarrow>
          (let launch = Call_LaunchTask ClusterName (FamilyPrefix @ env s) ContainerName
                          NetworkConfigurationParameter None in
           case LaunchTask (d s) ClusterName (FamilyPrefix @ env s) ContainerName
                  NetworkConfigurationParameter None of
             Inl err \<Rightarrow>
               traced [launch] (advance (db s) (state s) JobStage_Failed now (Some err))
           | Inr ident \<Rightarrow>
               (case mapAssign (Params (state s)) JobParam_Id (VString ident) of
                  None \<Rightarrow> ([launch], None)
                | Some withId \<Rightarrow>
                    (case mapAssign withId JobParam_Start (VInt (now_Start r)) of
                       None \<Rightarrow> ([launch], None)
                     | Some withStart \<Rightarrow>
                         traced [launch]
                           (advance (db s) ((state s)\<lparr>Params := withStart\<rparr>)
                              JobStage_Started now None))))
      | JobStage_Started \<Rightarrow>
          (case checkTests m r s True of
             (calls, None) \<Rightarrow> (calls, None)
           | (calls, Some (started, Some err)) \<Rightarrow>
               traced calls (advance (db s) (state s) JobStage_Failed now (Some err))
           | (calls, Some (started, None)) \<Rightarrow>
               if started
                 then traced calls (advance (db s) (state s) JobStage_Waiting now None)
                 else (calls, Some (state s, None)))
      | JobStage_Waiting \<Rightarrow>
          (case checkTests m r s False of
             (calls, None) \<Rightarrow> (calls, None)
           | (calls, Some (stopped, Some err)) \<Rightarrow>
               traced calls (advance (db s) (state s) JobStage_Failed now (Some err))
           | (calls, Some (stopped, None)) \<Rightarrow>
               if stopped
                 then traced calls (advance (db s) (state s) JobStage_Completed now None)
                 else (calls, Some (state s, None)))
      | _ \<Rightarrow>
          traced []
            (advance (db s) (state s) JobStage_Failed now
               (Some (Errorf (''smokeTestJob: unexpected state: '' @ PrintJob m (state s))))))"

section \<open>Notifications\<close>

text \<open>
  Modelled from the spec: the active-job registry (\<open>manager.Cache\<close>) is not in the two
  source files. The spec (section 4.4) has it keep an in-memory snapshot of all known job
  states, keyed by Id. The model is an association list from Id to the state last written
  for that Id.
\<close>

type_synonym Cache = "(string \<times> JobState) list"

text \<open>
  Modelled from the spec: the registry's refresh is not in the two source files. The spec
  (sections 4.4 and 5) has the snapshot refreshed on every transition, last writer wins per
  Id.
\<close>

definition WriteJob :: "JobState \<Rightarrow> Cache \<Rightarrow> Cache" where
  "WriteJob jobState c = AList.update (JobId jobState) jobState c"

text \<open>
  Modelled from the spec: \<open>JobsByMatcher\<close> is not in the two source files. The spec
  (section 4.4) has it return the registered job states that satisfy the predicate, in no
  particular order.
\<close>

definition JobsByMatcher :: "Cache \<Rightarrow> (JobState \<Rightarrow> bool) \<Rightarrow> JobState list" where
  "JobsByMatcher c matcher = filter matcher (map snd c)"

text \<open>
  \<open>JobNotifs\<close>: the store and the registry. The three webhook clients and the
  environment name of the Go struct choose the channels and the title; the functions below
  do not read them.
\<close>

record JobNotifs =
  notifs_db :: Database
  cache :: Cache

record EmbedField =
  Name :: string
  Value :: string

definition newline :: char where
  "newline = CHR 0x0A"

text \<open>
  \<open>getComponentMsg\<close>: \<open>None\<close> is the panic of the slice expression
  \<open>sha[:12]\<close> on a string of fewer than 12 bytes.
\<close>

definition getComponentMsg :: "manager \<Rightarrow> string \<Rightarrow> string \<Rightarrow> string option" where
  "getComponentMsg m component sha =
     (let repo = ComponentRepo m component in
      if length sha < 12 then None
      else Some (''['' @ repo @ '' ('' @ take 12 sha @ '')](https://github.com/'' @ GitHubOrg m
                 @ ''/'' @ repo @ ''/commit/'' @ sha @ '')''))"

text \<open>
  A lookup \<open>commitHashes[component]\<close> in a Go map answers the empty string for a
  key that is absent.
\<close>

definition hashOf :: "(string, string) gomap \<Rightarrow> string \<Rightarrow> string" where
  "hashOf commitHashes component =
     (case mapIndex commitHashes component of None \<Rightarrow> [] | Some sha \<Rightarrow> sha)"

text \<open>
  \<open>getDeployHashes\<close>: \<open>None\<close> is a panic, of one of the two type assertions
  \<open>.(string)\<close> on the parameters of a deploy job, of the assignment of the job's own
  hash into a nil mapping, or of one of the three component messages, which are built in
  the order ceramic, cas, ipfs.
\<close>

definition getDeployHashes :: "golib \<Rightarrow> manager \<Rightarrow> JobNotifs \<Rightarrow> JobState \<Rightarrow> string option" where
  "getDeployHashes l m n jobState =
     (case GetDeployHashes (notifs_db n) of
        Inl err \<Rightarrow> Some []
      | Inr fromDb \<Rightarrow>
          Option.bind
            (if Type jobState = JobType_Deploy then
               (case mapIndex (Params jobState) JobParam_Sha of
                  Some (VString sha) \<Rightarrow>
                    if MatchString l (CommitHashRegex m) sha then
                      (case mapIndex (Params jobState) JobParam_Component of
                         Some (VString component) \<Rightarrow> mapAssign fromDb component sha
                       | _ \<Rightarrow> None)
                    else Some fromDb
                | _ \<Rightarrow> None)
             else Some fromDb)
            (\<lambda>commitHashes.
          Option.bind (getComponentMsg m (DeployComponent_Ceramic m)
                         (hashOf commitHashes (DeployComponent_Ceramic m)))
            (\<lambda>ceramicMsg.
          Option.bind (getComponentMsg m (DeployComponent_Cas m)
                         (hashOf commitHashes (DeployComponent_Cas m)))
            (\<lambda>casMsg.
          Option.bind (getComponentMsg m (DeployComponent_Ipfs m)
                         (hashOf commitHashes (DeployComponent_Ipfs m)))
            (\<lambda>ipfsMsg.
          Some (ceramicMsg @ [newline] @ casMsg @ [newline] @ ipfsMsg))))))"

text \<open>
  \<open>getActiveJobsByType\<close>: \<open>activeJobLine\<close> is the \<open>fmt.Sprintf\<close> of one
  entry and \<open>activeJobsMessage\<close> is the loop over the matching jobs that appends the
  entries to the message.
\<close>

definition activeJobLine :: "manager \<Rightarrow> JobState \<Rightarrow> string" where
  "activeJobLine m activeJob =
     JobId activeJob @ '' ('' @ StageString m (Stage activeJob) @ '')'' @ [newline]"

fun activeJobsMessage :: "manager \<Rightarrow> JobState \<Rightarrow> JobState list \<Rightarrow> string \<Rightarrow> string" where
  "activeJobsMessage m jobState [] message = message"
| "activeJobsMessage m jobState (activeJob # activeJobs) message =
     activeJobsMessage m jobState activeJobs
       (if JobId activeJob \<noteq> JobId jobState then message @ activeJobLine m activeJob else message)"

definition getActiveJobsByType :: "manager \<Rightarrow> JobNotifs \<Rightarrow> JobState \<Rightarrow> JobType \<Rightarrow> EmbedField \<times> bool" where
  "getActiveJobsByType m n jobState jobType =
     (let activeJobs = JobsByMatcher (cache n) (\<lambda>js. IsActiveJob m js \<and> Type js = jobType);
          message = activeJobsMessage m jobState activeJobs []
      in (\<lparr>Name = NotifField m jobType @ '':'', Value = message\<rparr>, length message > 0))"

definition getActiveJobs :: "manager \<Rightarrow> JobNotifs \<Rightarrow> JobState \<Rightarrow> EmbedField list" where
  "getActiveJobs m n jobState =
     (let fields = [];
          fields = (case getActiveJobsByType m n jobState JobType_Deploy of
                      (field, found) \<Rightarrow> if found then fields @ [field] else fields);
          fields = (case getActiveJobsByType m n jobState JobType_Anchor of
                      (field, found) \<Rightarrow> if found then fields @ [field] else fields);
          fields = (case getActiveJobsByType m n jobState JobType_TestE2E of
                      (field, found) \<Rightarrow> if found then fields @ [field] else fields);
          fields = (case getActiveJobsByType m n jobState JobType_TestSmoke of
                      (field, found) \<Rightarrow> if found then fields @ [field] else fields)
      in fields)"

text \<open>
  \<open>getNotifFields\<close>: \<open>now\<close> is the reading of \<open>time.Now()\<close> that is
  formatted into the time field; \<open>None\<close> is a panic.
\<close>

definition getNotifFields ::
  "golib \<Rightarrow> manager \<Rightarrow> int \<Rightarrow> JobNotifs \<Rightarrow> JobState \<Rightarrow> EmbedField list option" where
  "getNotifFields l m now n jobState =
     (let fields = [\<lparr>Name = NotifField_JobId m, Value = JobId jobState\<rparr>] in
      case getDeployHashes l m n jobState of
        None \<Rightarrow> None
      | Some commitHashes \<Rightarrow>
          (let fields = (if length commitHashes > 0
                           then fields @ [\<lparr>Name = NotifField_CommitHashes m, Value = commitHashes\<rparr>]
                           else fields);
               fields = fields @ [\<lparr>Name = NotifField_Time m, Value = Format_RFC1123 l now\<rparr>];
               activeJobs = getActiveJobs m n jobState
           in Some (if length activeJobs > 0 then fields @ activeJobs else fields)))"

section \<open>Notions used to state the properties\<close>

text \<open>The terminal stages.\<close>

definition terminal :: "JobStage \<Rightarrow> bool" where
  "terminal stage \<longleftrightarrow>
     stage = JobStage_Failed \<or> stage = JobStage_Canceled \<or> stage = JobStage_Completed"

text \<open>
  A driver that calls \<open>Advance\<close> once per entry of a list of clock readings, each time
  on the state the previous call returned; \<open>None\<close> when a call panics.
\<close>

fun AdvanceAll :: "manager \<Rightarrow> readings list \<Rightarrow> smokeTestJob \<Rightarrow> JobState option" where
  "AdvanceAll m [] s = Some (state s)"
| "AdvanceAll m (r # rs) s =
     (case snd (Advance m r s) of
        None \<Rightarrow> None
      | Some (next, _) \<Rightarrow> AdvanceAll m rs (s\<lparr>state := next\<rparr>))"

text \<open>
  The state a failing transition at time \<open>ts\<close> with error \<open>e\<close> produces: the
  stage is Failed, the timestamp is \<open>ts\<close> and the error is recorded beside the entries
  of the input's bag.
\<close>

definition failedWith :: "JobState \<Rightarrow> int \<Rightarrow> error \<Rightarrow> JobState" where
  "failedWith js ts e =
     js\<lparr>Stage := JobStage_Failed, Ts := ts,
        Params := MakeMap ((mapEntries (Params js))(JobParam_Error \<mapsto> VError e))\<rparr>"

text \<open>The error of the default branch of \<open>Advance\<close>.\<close>

definition unexpected :: "manager \<Rightarrow> JobState \<Rightarrow> error" where
  "unexpected m js = Errorf (''smokeTestJob: unexpected state: '' @ PrintJob m js)"

text \<open>The launch call of the smoke-test job.\<close>

definition launchCall :: "smokeTestJob \<Rightarrow> call" where
  "launchCall s =
     Call_LaunchTask ClusterName (FamilyPrefix @ env s) ContainerName
       NetworkConfigurationParameter None"

text \<open>
  The registry as the spec describes it: after a sequence of writes, each Id is mapped to
  the state written last for it.
\<close>

definition latestOf :: "JobState list \<Rightarrow> (string \<rightharpoonup> JobState)" where
  "latestOf writes = foldl (\<lambda>reg js. reg(JobId js \<mapsto> js)) Map.empty writes"

section \<open>Concrete inputs\<close>

text \<open>
  Example collaborators and jobs at which the theorems below are instantiated: a backend
  with fixed answers, a store that saves without error, a smoke-test job with a task
  identifier, a manager package with a startup timeout of five minutes, clock readings one
  nanosecond apart, a registry after four writes, a mapping of deploy hashes whose entry
  for cas has seven characters, and a deploy job of cas with a hash of forty characters; the
  example regular-expression match accepts the strings of at least forty characters.
\<close>

definition backend :: "error + string \<Rightarrow> error + bool \<Rightarrow> Deployment" where
  "backend launch check =
     \<lparr>LaunchTask = (\<lambda>_ _ _ _ _. launch), CheckTask = (\<lambda>_ _ _ _ _. check)\<rparr>"

definition store0 :: "(string \<rightharpoonup> string) \<Rightarrow> Database" where
  "store0 hashes = \<lparr>SaveJob = (\<lambda>_. None), GetDeployHashes = Inr (MakeMap hashes)\<rparr>"

definition jobState0 :: "string \<Rightarrow> JobStage \<Rightarrow> int \<Rightarrow> JobState" where
  "jobState0 ident stage ts =
     \<lparr>JobId = ident, Type = JobType_TestSmoke, Stage = stage, Ts = ts,
      Params = MakeMap [JobParam_Id \<mapsto> VString ''task-123'']\<rparr>"

definition job0 :: "JobStage \<Rightarrow> int \<Rightarrow> error + string \<Rightarrow> error + bool \<Rightarrow> smokeTestJob" where
  "job0 stage ts launch check =
     \<lparr>state = jobState0 ''job-1'' stage ts, db = store0 Map.empty, env = ''qa'',
      d = backend launch check\<rparr>"

definition manager0 :: manager where
  "manager0 =
     \<lparr>DefaultWaitTime = 5 * Minute, PrintJob = JobId,
      IsActiveJob = (\<lambda>js. Stage js = JobStage_Started \<or> Stage js = JobStage_Waiting),
      StageString = (\<lambda>stage. if stage = JobStage_Started then ''started'' else ''other''),
      NotifField_JobId = ''Job ID'', NotifField_CommitHashes = ''Commit Hashes'',
      NotifField_Time = ''Time'', NotifField = (\<lambda>_. ''Tests In Progress''),
      DeployComponent_Ceramic = ''ceramic'', DeployComponent_Cas = ''cas'',
      DeployComponent_Ipfs = ''ipfs'', ComponentRepo = (\<lambda>c. c), GitHubOrg = ''ceramicnetwork'',
      CommitHashRegex = ''[0-9a-f]{40}''\<rparr>"

definition golib0 :: golib where
  "golib0 = \<lparr>MatchString = (\<lambda>_ s. 40 \<le> length s), Format_RFC1123 = (\<lambda>_. ''Mon'')\<rparr>"

definition at :: "int \<Rightarrow> readings" where
  "at t = \<lparr>now_Advance = t, now_Start = t + 1, now_IsTimedOut = t + 2\<rparr>"

definition writes0 :: "JobState list" where
  "writes0 =
     [jobState0 ''job-1'' JobStage_Queued 0, jobState0 ''job-2'' JobStage_Started 1,
      jobState0 ''job-1'' JobStage_Started 2, jobState0 ''job-3'' JobStage_Completed 3]"

definition notifs0 :: "(string \<rightharpoonup> string) \<Rightarrow> JobNotifs" where
  "notifs0 hashes = \<lparr>notifs_db = store0 hashes, cache = fold WriteJob writes0 []\<rparr>"

definition hashes0 :: "string \<rightharpoonup> string" where
  "hashes0 =
     [''ceramic'' \<mapsto> ''0123456789abcdef0123456789abcdef01234567'',
      ''cas'' \<mapsto> ''89abcde'',
      ''ipfs'' \<mapsto> ''456789abcdef0123456789abcdef0123456789ab'']"

definition deployJob0 :: "string \<Rightarrow> JobState" where
  "deployJob0 sha =
     \<lparr>JobId = ''job-4'', Type = JobType_Deploy, Stage = JobStage_Started, Ts = 2,
      Params = MakeMap [JobParam_Sha \<mapsto> VString sha, JobParam_Component \<mapsto> VString ''cas'']\<rparr>"

lemmas fixture_defs =
  backend_def store0_def jobState0_def job0_def manager0_def golib0_def at_def
  writes0_def notifs0_def hashes0_def deployJob0_def


section \<open>Unfolding the step function\<close>

lemma mapIndex_simps [simp]:
  "mapIndex NilMap k = None"
  "mapIndex (MakeMap entries) k = entries k"
  by (simp_all add: mapIndex_def)

lemma Advance_default:
  assumes "Stage (state s) \<notin>
             {JobStage_Queued, JobStage_Dequeued, JobStage_Started, JobStage_Waiting}"
  shows "Advance m r s =
     ([Call_SaveJob (failedWith (state s) (now_Advance r) (unexpected m (state s))),
       Call_NotifyJob (failedWith (state s) (now_Advance r) (unexpected m (state s)))],
      Some (failedWith (state s) (now_Advance r) (unexpected m (state s)),
        SaveJob (db s) (failedWith (state s) (now_Advance r) (unexpected m (state s)))))"
  using assms
  by (cases "Stage (state s)")
     (simp_all add: Advance_def advance_def traced_def unexpected_def failedWith_def Let_def)

lemma checkTests_call:
  assumes "mapIndex (Params (state s)) JobParam_Id = Some (VString taskId)"
  shows "checkTests m r s expected =
     ([Call_CheckTask ClusterName [] expected False taskId],
      Some (case CheckTask (d s) ClusterName [] expected False taskId of
              Inl err \<Rightarrow> (False, Some err)
            | Inr status \<Rightarrow>
                if status then (True, None)
                else if expected \<and> IsTimedOut (now_IsTimedOut r) (state s) (DefaultWaitTime m)
                  then (False, Some Error_StartupTimeout)
                else if \<not> expected \<and> IsTimedOut (now_IsTimedOut r) (state s) smokeTestFailureTime
                  then (False, Some Error_CompletionTimeout)
                else (False, None)))"
  using assms by (simp add: checkTests_def)

lemma Advance_Queued:
  assumes "Stage (state s) = JobStage_Queued"
  shows "Advance m r s = traced [] (advance (db s) (state s) JobStage_Dequeued (Ts (state s)) None)"
  using assms by (simp add: Advance_def Let_def)

lemma Advance_Dequeued:
  assumes "Stage (state s) = JobStage_Dequeued"
  shows "Advance m r s =
     (case LaunchTask (d s) ClusterName (FamilyPrefix @ env s) ContainerName
             NetworkConfigurationParameter None of
        Inl err \<Rightarrow>
          traced [launchCall s]
            (advance (db s) (state s) JobStage_Failed (now_Advance r) (Some err))
      | Inr ident \<Rightarrow>
          (case Params (state s) of
             NilMap \<Rightarrow> ([launchCall s], None)
           | MakeMap entries \<Rightarrow>
               traced [launchCall s]
                 (advance (db s)
                    ((state s)\<lparr>Params := MakeMap (entries(JobParam_Id \<mapsto> VString ident,
                                                         JobParam_Start \<mapsto> VInt (now_Start r)))\<rparr>)
                    JobStage_Started (now_Advance r) None)))"
  using assms
  by (simp add: Advance_def launchCall_def Let_def split: sum.splits gomap.splits)

lemma Advance_Started:
  assumes "Stage (state s) = JobStage_Started"
  shows "Advance m r s =
     (case checkTests m r s True of
        (calls, None) \<Rightarrow> (calls, None)
      | (calls, Some (started, Some err)) \<Rightarrow>
          traced calls (advance (db s) (state s) JobStage_Failed (now_Advance r) (Some err))
      | (calls, Some (started, None)) \<Rightarrow>
          if started
            then traced calls (advance (db s) (state s) JobStage_Waiting (now_Advance r) None)
            else (calls, Some (state s, None)))"
  using assms by (simp add: Advance_def Let_def)

lemma Advance_Waiting:
  assumes "Stage (state s) = JobStage_Waiting"
  shows "Advance m r s =
     (case checkTests m r s False of
        (calls, None) \<Rightarrow> (calls, None)
      | (calls, Some (stopped, Some err)) \<Rightarrow>
          traced calls (advance (db s) (state s) JobStage_Failed (now_Advance r) (Some err))
      | (calls, Some (stopped, None)) \<Rightarrow>
          if stopped
            then traced calls (advance (db s) (state s) JobStage_Completed (now_Advance r) None)
            else (calls, Some (state s, None)))"
  using assms by (simp add: Advance_def Let_def)

text \<open>
  \<open>checkTests\<close> panics before it reaches the backend when the task identifier is
  missing from Params or is not a string, and \<open>Advance\<close> with it in the two stages
  that check the task.
\<close>

lemma Advance_panics_without_task_id:
  assumes "Stage (state s) = JobStage_Started \<or> Stage (state s) = JobStage_Waiting"
    and "\<forall>taskId. mapIndex (Params (state s)) JobParam_Id \<noteq> Some (VString taskId)"
  shows "Advance m r s = ([], None)"
proof -
  have "checkTests m r s expected = ([], None)" for expected
    using assms(2) by (auto simp: checkTests_def split: option.splits val.splits)
  with assms(1) show ?thesis
    by (auto simp: Advance_Started Advance_Waiting)
qed

lemma advance_failed:
  "traced calls (advance dbase js JobStage_Failed ts (Some err)) =
     (calls @ [Call_SaveJob (failedWith js ts err), Call_NotifyJob (failedWith js ts err)],
      Some (failedWith js ts err, SaveJob dbase (failedWith js ts err)))"
  by (simp add: traced_def advance_def failedWith_def Let_def)

lemma advance_ok:
  "traced calls (advance dbase js stage ts None) =
     (calls @ [Call_SaveJob (js\<lparr>Stage := stage, Ts := ts\<rparr>),
               Call_NotifyJob (js\<lparr>Stage := stage, Ts := ts\<rparr>)],
      Some (js\<lparr>Stage := stage, Ts := ts\<rparr>, SaveJob dbase (js\<lparr>Stage := stage, Ts := ts\<rparr>)))"
  by (simp add: traced_def advance_def Let_def)

lemma AdvanceAll_default:
  assumes "Stage (state s) \<notin>
             {JobStage_Queued, JobStage_Dequeued, JobStage_Started, JobStage_Waiting}"
    and "rs \<noteq> []"
  shows "\<exists>next. AdvanceAll m rs s = Some next \<and> Stage next = JobStage_Failed
           \<and> Ts next = now_Advance (last rs)
           \<and> JobId next = JobId (state s) \<and> Type next = Type (state s)"
  using assms
proof (induction rs arbitrary: s)
  case Nil
  then show ?case by simp
next
  case (Cons r rs)
  let ?next = "failedWith (state s) (now_Advance r) (unexpected m (state s))"
  have step: "snd (Advance m r s) = Some (?next, SaveJob (db s) ?next)"
    using Cons.prems(1) by (simp add: Advance_default)
  show ?case
  proof (cases "rs = []")
    case True
    then show ?thesis using step by (simp add: failedWith_def)
  next
    case False
    have "Stage (state (s\<lparr>state := ?next\<rparr>)) \<notin>
            {JobStage_Queued, JobStage_Dequeued, JobStage_Started, JobStage_Waiting}"
      by (simp add: failedWith_def)
    from Cons.IH[OF this False] show ?thesis
      using step False by (simp add: failedWith_def)
  qed
qed

section \<open>Terminal stages\<close>

text \<open>
  Claim C1, as the code has it. A job in a terminal stage (Failed, Canceled, Completed) is
  not left alone by \<open>Advance\<close>: the call takes the default branch and returns the state
  with Stage set to Failed, Ts set to the time of the call and the "unexpected state" error
  recorded in Params; Id, Type and the other parameters are kept. So after any positive
  number of repeated calls the job is in stage Failed, with the Ts of the last call: a
  Failed job keeps its stage, a Canceled or Completed job becomes Failed.
\<close>

theorem Advance_terminal_becomes_Failed:
  assumes "terminal (Stage (state s))"
  shows "map_option fst (snd (Advance m r s))
           = Some (failedWith (state s) (now_Advance r) (unexpected m (state s)))
       \<and> (rs \<noteq> [] \<longrightarrow>
            (\<exists>next. AdvanceAll m rs s = Some next \<and> Stage next = JobStage_Failed
               \<and> Ts next = now_Advance (last rs)
               \<and> JobId next = JobId (state s) \<and> Type next = Type (state s)))"
proof -
  from assms have other: "Stage (state s) \<notin>
      {JobStage_Queued, JobStage_Dequeued, JobStage_Started, JobStage_Waiting}"
    by (auto simp: terminal_def)
  then have "map_option fst (snd (Advance m r s))
           = Some (failedWith (state s) (now_Advance r) (unexpected m (state s)))"
    by (simp add: Advance_default)
  moreover have "rs \<noteq> [] \<longrightarrow>
            (\<exists>next. AdvanceAll m rs s = Some next \<and> Stage next = JobStage_Failed
               \<and> Ts next = now_Advance (last rs)
               \<and> JobId next = JobId (state s) \<and> Type next = Type (state s))"
    using AdvanceAll_default[OF other] by blast
  ultimately show ?thesis by blast
qed

text \<open>
  The theorem at a Completed job, advanced once at time 100 and three times at times 100,
  200 and 300.
\<close>

theorem Advance_terminal_becomes_Failed_witness:
  "map_option fst (snd (Advance manager0 (at 100)
       (job0 JobStage_Completed 0 (Inr ''task-123'') (Inr False))))
     = Some (failedWith (jobState0 ''job-1'' JobStage_Completed 0) 100
               (Errorf ''smokeTestJob: unexpected state: job-1''))
   \<and> (\<exists>next. AdvanceAll manager0 [at 100, at 200, at 300]
                (job0 JobStage_Completed 0 (Inr ''task-123'') (Inr False)) = Some next
         \<and> Stage next = JobStage_Failed \<and> Ts next = 300
         \<and> JobId next = ''job-1'' \<and> Type next = JobType_TestSmoke)"
  using Advance_terminal_becomes_Failed
          [where s = "job0 JobStage_Completed 0 (Inr ''task-123'') (Inr False)"
             and m = manager0 and r = "at 100" and rs = "[at 100, at 200, at 300]"]
  by (simp add: fixture_defs terminal_def unexpected_def)

text \<open>
  Claim C1 as stated fails: a Completed job advanced once is returned in stage Failed.
\<close>

theorem Advance_terminal_changes_Stage:
  "Stage (state (job0 JobStage_Completed 0 (Inr ''task-123'') (Inr False))) = JobStage_Completed
   \<and> map_option (Stage \<circ> fst)
        (snd (Advance manager0 (at 100) (job0 JobStage_Completed 0 (Inr ''task-123'') (Inr False))))
       = Some JobStage_Failed"
  by (simp add: Advance_default failedWith_def fixture_defs)

section \<open>Waiting on the backend\<close>

text \<open>
  Claim C2. A job in stage Started whose \<open>CheckTask\<close> call (made with the task
  identifier stored in Params) reports "not yet running" without error, while the time
  elapsed since Ts does not exceed the startup timeout, and a job in stage Waiting whose
  \<open>CheckTask\<close> call reports "still running" without error, while the time elapsed since
  Ts does not exceed the completion timeout: \<open>Advance\<close> makes that one call and returns
  the input state unchanged together with a nil error.
\<close>

theorem Advance_not_ready_unchanged:
  assumes "mapIndex (Params (state s)) JobParam_Id = Some (VString taskId)"
    and "(Stage (state s) = JobStage_Started
            \<and> CheckTask (d s) ClusterName [] True False taskId = Inr False
            \<and> now_IsTimedOut r - Ts (state s) \<le> DefaultWaitTime m
            \<and> expected = True)
       \<or> (Stage (state s) = JobStage_Waiting
            \<and> CheckTask (d s) ClusterName [] False False taskId = Inr False
            \<and> now_IsTimedOut r - Ts (state s) \<le> smokeTestFailureTime
            \<and> expected = False)"
  shows "Advance m r s =
           ([Call_CheckTask ClusterName [] expected False taskId], Some (state s, None))"
  using assms
  by (auto simp: Advance_Started Advance_Waiting checkTests_call IsTimedOut_def)

text \<open>
  The theorem at a Started job 102 ns after its Ts, and at a Waiting job exactly 15 minutes
  after its Ts.
\<close>

theorem Advance_not_ready_unchanged_witness:
  "Advance manager0 (at 100) (job0 JobStage_Started 0 (Inr ''task-123'') (Inr False))
     = ([Call_CheckTask ClusterName [] True False ''task-123''],
        Some (jobState0 ''job-1'' JobStage_Started 0, None))
   \<and> Advance manager0 (at (900000000000 - 2))
         (job0 JobStage_Waiting 0 (Inr ''task-123'') (Inr False))
     = ([Call_CheckTask ClusterName [] False False ''task-123''],
        Some (jobState0 ''job-1'' JobStage_Waiting 0, None))"
  using Advance_not_ready_unchanged
          [where s = "job0 JobStage_Started 0 (Inr ''task-123'') (Inr False)"
             and taskId = "''task-123''" and r = "at 100" and m = manager0 and expected = True]
        Advance_not_ready_unchanged
          [where s = "job0 JobStage_Waiting 0 (Inr ''task-123'') (Inr False)"
             and taskId = "''task-123''" and r = "at (900000000000 - 2)" and m = manager0
             and expected = False]
  by (simp add: fixture_defs smokeTestFailureTime_def Minute_def)

section \<open>Timeouts\<close>

text \<open>
  Claim C3. A job in stage Started whose \<open>CheckTask\<close> call reports "not yet running"
  without error, when the time elapsed since the Ts of the state exceeds the startup
  timeout, is moved to stage Failed with the error \<open>Error_StartupTimeout\<close> recorded; a
  job in stage Waiting whose \<open>CheckTask\<close> call reports "still running" without error,
  when the time elapsed since the Ts of the state exceeds 15 minutes (in nanoseconds), is
  moved to stage Failed with the error \<open>Error_CompletionTimeout\<close> recorded. Neither
  error comes from the backend, whose answer carries none.
\<close>

theorem Advance_timeout_fails:
  assumes "mapIndex (Params (state s)) JobParam_Id = Some (VString taskId)"
    and "(Stage (state s) = JobStage_Started
            \<and> CheckTask (d s) ClusterName [] True False taskId = Inr False
            \<and> now_IsTimedOut r - Ts (state s) > DefaultWaitTime m
            \<and> e = Error_StartupTimeout)
       \<or> (Stage (state s) = JobStage_Waiting
            \<and> CheckTask (d s) ClusterName [] False False taskId = Inr False
            \<and> now_IsTimedOut r - Ts (state s) > 15 * 60 * 1000000000
            \<and> e = Error_CompletionTimeout)"
  shows "map_option fst (snd (Advance m r s)) = Some (failedWith (state s) (now_Advance r) e)"
  using assms
  by (auto simp: Advance_Started Advance_Waiting checkTests_call IsTimedOut_def advance_failed
        smokeTestFailureTime_def Minute_def)

text \<open>
  The theorem at a Started job one nanosecond past the five minutes of the example
  manager, and at a Waiting job one nanosecond past 15 minutes.
\<close>

theorem Advance_timeout_fails_witness:
  "map_option fst (snd (Advance manager0 (at (300000000000 - 1))
       (job0 JobStage_Started 0 (Inr ''task-123'') (Inr False))))
     = Some (failedWith (jobState0 ''job-1'' JobStage_Started 0) (300000000000 - 1)
               Error_StartupTimeout)
   \<and> map_option fst (snd (Advance manager0 (at (900000000000 - 1))
       (job0 JobStage_Waiting 0 (Inr ''task-123'') (Inr False))))
     = Some (failedWith (jobState0 ''job-1'' JobStage_Waiting 0) (900000000000 - 1)
               Error_CompletionTimeout)"
  using Advance_timeout_fails
          [where s = "job0 JobStage_Started 0 (Inr ''task-123'') (Inr False)"
             and taskId = "''task-123''" and r = "at (300000000000 - 1)" and m = manager0
             and e = Error_StartupTimeout]
        Advance_timeout_fails
          [where s = "job0 JobStage_Waiting 0 (Inr ''task-123'') (Inr False)"
             and taskId = "''task-123''" and r = "at (900000000000 - 1)" and m = manager0
             and e = Error_CompletionTimeout]
  by (simp add: fixture_defs Minute_def)

section \<open>The timestamp of a transition\<close>

text \<open>
  Claim C4. A job in stage Queued is moved to stage Dequeued with the Ts of the input state
  (not the time of the call), nothing else changed. In every other stage, a call that
  returns hands back either the input state itself or a state whose Ts is the time of the
  call: Queued to Dequeued is the only transition that does not set Ts to that time.
\<close>

theorem Advance_Queued_keeps_Ts:
  "(Stage (state s) = JobStage_Queued \<longrightarrow>
      map_option fst (snd (Advance m r s))
        = Some ((state s)\<lparr>Stage := JobStage_Dequeued, Ts := Ts (state s)\<rparr>))
   \<and> (Stage (state s) \<noteq> JobStage_Queued \<longrightarrow>
        (\<forall>next. map_option fst (snd (Advance m r s)) = Some next \<longrightarrow>
           next = state s \<or> Ts next = now_Advance r))"
proof (cases "Stage (state s)")
  case JobStage_Queued
  then show ?thesis by (simp add: Advance_Queued advance_ok)
next
  case JobStage_Dequeued
  then show ?thesis
    by (auto simp: Advance_Dequeued advance_failed advance_ok failedWith_def
          split: sum.splits gomap.splits)
next
  case JobStage_Started
  then show ?thesis
    by (auto simp: Advance_Started checkTests_def advance_failed advance_ok failedWith_def
          split: sum.splits option.splits val.splits if_splits)
next
  case JobStage_Waiting
  then show ?thesis
    by (auto simp: Advance_Waiting checkTests_def advance_failed advance_ok failedWith_def
          split: sum.splits option.splits val.splits if_splits)
qed (simp_all add: Advance_default failedWith_def)

text \<open>
  The theorem at a job queued at time 7 and advanced at time 100, and at a Started job
  whose task is reported running at time 100.
\<close>

theorem Advance_Queued_keeps_Ts_witness:
  "map_option fst (snd (Advance manager0 (at 100)
       (job0 JobStage_Queued 7 (Inr ''task-123'') (Inr True))))
     = Some (jobState0 ''job-1'' JobStage_Dequeued 7)
   \<and> map_option fst (snd (Advance manager0 (at 100)
       (job0 JobStage_Started 7 (Inr ''task-123'') (Inr True))))
     = Some (jobState0 ''job-1'' JobStage_Waiting 100)
   \<and> jobState0 ''job-1'' JobStage_Waiting 100 \<noteq> jobState0 ''job-1'' JobStage_Started 7
   \<and> Ts (jobState0 ''job-1'' JobStage_Waiting 100) = 100"
proof -
  let ?q = "job0 JobStage_Queued 7 (Inr ''task-123'') (Inr True)"
  let ?s = "job0 JobStage_Started 7 (Inr ''task-123'') (Inr True)"
  have q: "map_option fst (snd (Advance manager0 (at 100) ?q))
             = Some (jobState0 ''job-1'' JobStage_Dequeued 7)"
    using Advance_Queued_keeps_Ts [where s = ?q and m = manager0 and r = "at 100"] by (simp add: fixture_defs)
  have run: "map_option fst (snd (Advance manager0 (at 100) ?s))
             = Some (jobState0 ''job-1'' JobStage_Waiting 100)"
    by (simp add: Advance_Started checkTests_def advance_ok fixture_defs)
  have "jobState0 ''job-1'' JobStage_Waiting 100 = state ?s
        \<or> Ts (jobState0 ''job-1'' JobStage_Waiting 100) = now_Advance (at 100)"
    using Advance_Queued_keeps_Ts [where s = ?s and m = manager0 and r = "at 100"] run by (simp add: fixture_defs)
  then have "Ts (jobState0 ''job-1'' JobStage_Waiting 100) = 100"
    by (simp add: fixture_defs)
  moreover have "jobState0 ''job-1'' JobStage_Waiting 100 \<noteq> jobState0 ''job-1'' JobStage_Started 7"
    by (simp add: fixture_defs)
  ultimately show ?thesis using q run by simp
qed

section \<open>Errors of the external calls\<close>

text \<open>
  Claim C5. When the external call of the stage handler returns an error
  (\<open>LaunchTask\<close> in stage Dequeued, \<open>CheckTask\<close> in stage Started or Waiting),
  \<open>Advance\<close> moves the job to stage Failed with that error recorded, at the time of the
  call. The calls made are exactly the one external call, followed by the save and the
  notification of the failed state: the external call is not made a second time.
\<close>

theorem Advance_external_error_fails:
  assumes "(Stage (state s) = JobStage_Dequeued
            \<and> LaunchTask (d s) ClusterName (FamilyPrefix @ env s) ContainerName
                 NetworkConfigurationParameter None = Inl err
            \<and> c = Call_LaunchTask ClusterName (FamilyPrefix @ env s) ContainerName
                 NetworkConfigurationParameter None)
       \<or> (Stage (state s) = JobStage_Started
            \<and> mapIndex (Params (state s)) JobParam_Id = Some (VString taskId)
            \<and> CheckTask (d s) ClusterName [] True False taskId = Inl err
            \<and> c = Call_CheckTask ClusterName [] True False taskId)
       \<or> (Stage (state s) = JobStage_Waiting
            \<and> mapIndex (Params (state s)) JobParam_Id = Some (VString taskId)
            \<and> CheckTask (d s) ClusterName [] False False taskId = Inl err
            \<and> c = Call_CheckTask ClusterName [] False False taskId)"
  shows "Advance m r s =
       ([c, Call_SaveJob (failedWith (state s) (now_Advance r) err),
            Call_NotifyJob (failedWith (state s) (now_Advance r) err)],
        Some (failedWith (state s) (now_Advance r) err,
              SaveJob (db s) (failedWith (state s) (now_Advance r) err)))"
  using assms
  by (auto simp: Advance_Started Advance_Waiting Advance_Dequeued checkTests_call
        advance_failed launchCall_def)

text \<open>
  The theorem at a Dequeued job whose launch fails and at a Waiting job whose check fails.
\<close>

theorem Advance_external_error_fails_witness:
  "Advance manager0 (at 100)
       (job0 JobStage_Dequeued 0 (Inl (ExternalCallError ''no capacity'')) (Inr False))
     = ([Call_LaunchTask ClusterName (FamilyPrefix @ ''qa'') ContainerName
           NetworkConfigurationParameter None,
         Call_SaveJob (failedWith (jobState0 ''job-1'' JobStage_Dequeued 0) 100
                         (ExternalCallError ''no capacity'')),
         Call_NotifyJob (failedWith (jobState0 ''job-1'' JobStage_Dequeued 0) 100
                         (ExternalCallError ''no capacity''))],
        Some (failedWith (jobState0 ''job-1'' JobStage_Dequeued 0) 100
                (ExternalCallError ''no capacity''), None))
   \<and> Advance manager0 (at 100)
       (job0 JobStage_Waiting 0 (Inr ''task-123'') (Inl (ExternalCallError ''throttled'')))
     = ([Call_CheckTask ClusterName [] False False ''task-123'',
         Call_SaveJob (failedWith (jobState0 ''job-1'' JobStage_Waiting 0) 100
                         (ExternalCallError ''throttled'')),
         Call_NotifyJob (failedWith (jobState0 ''job-1'' JobStage_Waiting 0) 100
                         (ExternalCallError ''throttled''))],
        Some (failedWith (jobState0 ''job-1'' JobStage_Waiting 0) 100
                (ExternalCallError ''throttled''), None))"
  using Advance_external_error_fails
          [where s = "job0 JobStage_Dequeued 0 (Inl (ExternalCallError ''no capacity'')) (Inr False)"
             and err = "ExternalCallError ''no capacity''"
             and c = "Call_LaunchTask ClusterName (FamilyPrefix @ ''qa'') ContainerName
                        NetworkConfigurationParameter None"
             and taskId = "''task-123''" and m = manager0 and r = "at 100"]
        Advance_external_error_fails
          [where s = "job0 JobStage_Waiting 0 (Inr ''task-123'') (Inl (ExternalCallError ''throttled''))"
             and err = "ExternalCallError ''throttled''"
             and c = "Call_CheckTask ClusterName [] False False ''task-123''"
             and taskId = "''task-123''" and m = manager0 and r = "at 100"]
  by (simp add: fixture_defs)

section \<open>Launch and completion\<close>

text \<open>
  Claim C6, as the code has it. A job in stage Dequeued whose parameter bag is an allocated
  map and whose \<open>LaunchTask\<close> call succeeds with a task identifier is moved to stage
  Started with Ts set to the time of the call, the task identifier recorded under
  \<open>JobParam_Id\<close> and the subtask start time (the clock read after the launch) under
  \<open>JobParam_Start\<close>; the launch is the only backend call.
\<close>

theorem Advance_launch_starts:
  assumes "Stage (state s) = JobStage_Dequeued"
    and "LaunchTask (d s) ClusterName (FamilyPrefix @ env s) ContainerName
           NetworkConfigurationParameter None = Inr ident"
    and "Params (state s) = MakeMap entries"
    and "next = (state s)\<lparr>Params := MakeMap (entries(JobParam_Id \<mapsto> VString ident,
                                                  JobParam_Start \<mapsto> VInt (now_Start r))),
                   Stage := JobStage_Started, Ts := now_Advance r\<rparr>"
  shows "Advance m r s =
           ([launchCall s, Call_SaveJob next, Call_NotifyJob next],
            Some (next, SaveJob (db s) next))"
  using assms by (simp add: Advance_Dequeued advance_ok)

text \<open>The theorem at a Dequeued job whose launch answers \<open>task-123\<close> (spec scenario B).\<close>

theorem Advance_launch_starts_witness:
  "map_option fst (snd (Advance manager0 (at 100)
       (job0 JobStage_Dequeued 0 (Inr ''task-123'') (Inr False))))
     = Some \<lparr>JobId = ''job-1'', Type = JobType_TestSmoke, Stage = JobStage_Started, Ts = 100,
             Params = MakeMap [JobParam_Id \<mapsto> VString ''task-123'',
                               JobParam_Start \<mapsto> VInt 101]\<rparr>"
  using Advance_launch_starts
          [where s = "job0 JobStage_Dequeued 0 (Inr ''task-123'') (Inr False)"
             and ident = "''task-123''" and r = "at 100" and m = manager0
             and entries = "[JobParam_Id \<mapsto> VString ''task-123'']", OF _ _ _ refl]
  by (simp add: fixture_defs)

text \<open>
  Claim C6 as stated fails for a Dequeued job whose parameter bag is the nil map: the launch
  succeeds with \<open>task-123\<close>, the assignment of the identifier into the bag panics, and
  \<open>Advance\<close> returns nothing after the one launch call.
\<close>

theorem Advance_launch_nil_Params_panics:
  "Stage (state ((job0 JobStage_Dequeued 0 (Inr ''task-123'') (Inr False))
                   \<lparr>state := (jobState0 ''job-1'' JobStage_Dequeued 0)\<lparr>Params := NilMap\<rparr>\<rparr>))
     = JobStage_Dequeued
   \<and> LaunchTask (d ((job0 JobStage_Dequeued 0 (Inr ''task-123'') (Inr False))
                   \<lparr>state := (jobState0 ''job-1'' JobStage_Dequeued 0)\<lparr>Params := NilMap\<rparr>\<rparr>))
        ClusterName (FamilyPrefix @ ''qa'') ContainerName NetworkConfigurationParameter None
     = Inr ''task-123''
   \<and> Advance manager0 (at 100)
        ((job0 JobStage_Dequeued 0 (Inr ''task-123'') (Inr False))
           \<lparr>state := (jobState0 ''job-1'' JobStage_Dequeued 0)\<lparr>Params := NilMap\<rparr>\<rparr>)
     = ([Call_LaunchTask ClusterName (FamilyPrefix @ ''qa'') ContainerName
           NetworkConfigurationParameter None], None)"
  by (simp add: Advance_Dequeued launchCall_def fixture_defs)

text \<open>
  Claim C7. A job in stage Waiting whose \<open>CheckTask\<close> call (expecting the task not to
  run) reports the task stopped without error is moved to stage Completed, at the time of
  the call.
\<close>

theorem Advance_stopped_completes:
  assumes "Stage (state s) = JobStage_Waiting"
    and "mapIndex (Params (state s)) JobParam_Id = Some (VString taskId)"
    and "CheckTask (d s) ClusterName [] False False taskId = Inr True"
  shows "map_option fst (snd (Advance m r s))
           = Some ((state s)\<lparr>Stage := JobStage_Completed, Ts := now_Advance r\<rparr>)"
  using assms by (simp add: Advance_Waiting checkTests_call advance_ok)

text \<open>The theorem at a Waiting job whose task is reported stopped (spec scenario E).\<close>

theorem Advance_stopped_completes_witness:
  "map_option fst (snd (Advance manager0 (at 100)
       (job0 JobStage_Waiting 0 (Inr ''task-123'') (Inr True))))
     = Some (jobState0 ''job-1'' JobStage_Completed 100)"
  using Advance_stopped_completes
          [where s = "job0 JobStage_Waiting 0 (Inr ''task-123'') (Inr True)"
             and taskId = "''task-123''" and m = manager0 and r = "at 100"]
  by (simp add: fixture_defs)

section \<open>The timeout predicate\<close>

text \<open>
  Claim C8. \<open>IsTimedOut\<close> is the predicate \<open>now - Ts > threshold\<close> of its three
  arguments and of nothing else; if it holds for a threshold it holds for every smaller
  one; and for a duration, a threshold that is not negative, it is false when the elapsed
  time is negative.
\<close>

theorem IsTimedOut_monotonic:
  "(IsTimedOut now jobState threshold \<longleftrightarrow> now - Ts jobState > threshold)
   \<and> (IsTimedOut now jobState threshold \<and> threshold' < threshold
        \<longrightarrow> IsTimedOut now jobState threshold')
   \<and> (now - Ts jobState < 0 \<and> 0 \<le> threshold \<longrightarrow> \<not> IsTimedOut now jobState threshold)"
  by (auto simp: IsTimedOut_def)

text \<open>
  The theorem 100 ns after Ts with thresholds 50 and 10, and 5 ns before Ts with
  threshold 0.
\<close>

theorem IsTimedOut_monotonic_witness:
  "IsTimedOut 100 (jobState0 ''job-1'' JobStage_Started 0) 50
   \<and> IsTimedOut 100 (jobState0 ''job-1'' JobStage_Started 0) 10
   \<and> \<not> IsTimedOut 0 (jobState0 ''job-1'' JobStage_Started 5) 0"
  using IsTimedOut_monotonic
          [where now = 100 and jobState = "jobState0 ''job-1'' JobStage_Started 0"
             and threshold = 50 and threshold' = 10]
        IsTimedOut_monotonic
          [where now = 0 and jobState = "jobState0 ''job-1'' JobStage_Started 5"
             and threshold = 0 and threshold' = 0]
  by (simp add: fixture_defs)

section \<open>The registry and the active-jobs field\<close>

lemma activeJobsMessage_concat:
  "activeJobsMessage m jobState activeJobs message =
     message @ concat (map (activeJobLine m)
                         (filter (\<lambda>a. JobId a \<noteq> JobId jobState) activeJobs))"
  by (induction activeJobs arbitrary: message) simp_all

lemma lines_empty: "(concat (map (activeJobLine m) xs) = []) = (xs = [])"
  by (cases xs) (simp_all add: activeJobLine_def)

lemma map_of_fold_WriteJob:
  "map_of (fold WriteJob writes c) = foldl (\<lambda>reg js. reg(JobId js \<mapsto> js)) (map_of c) writes"
  by (induction writes arbitrary: c) (simp_all add: WriteJob_def update_conv')

lemma distinct_fold_WriteJob:
  "distinct (map fst c) \<Longrightarrow> distinct (map fst (fold WriteJob writes c))"
  by (induction writes arbitrary: c) (simp_all add: WriteJob_def distinct_update)

lemma keyed_WriteJob:
  "\<forall>(k, js) \<in> set c. JobId js = k \<Longrightarrow> \<forall>(k, js) \<in> set (WriteJob w c). JobId js = k"
  by (induction c) (auto simp: WriteJob_def)

lemma keyed_fold_WriteJob:
  "\<forall>(k, js) \<in> set c. JobId js = k \<Longrightarrow>
   \<forall>(k, js) \<in> set (fold WriteJob writes c). JobId js = k"
proof (induction writes arbitrary: c)
  case Nil
  then show ?case by simp
next
  case (Cons w writes)
  from keyed_WriteJob[OF Cons.prems]
  have "\<forall>(k, js) \<in> set (WriteJob w c). JobId js = k" .
  from Cons.IH[OF this] show ?case by simp
qed

lemma keyed_map_snd:
  assumes "\<forall>(k, js) \<in> set c. JobId js = k"
  shows "map JobId (map snd c) = map fst c"
  using assms by (induction c) auto

lemma registry_distinct_ids:
  "distinct (map JobId (map snd (fold WriteJob writes [])))"
proof -
  have "\<forall>(k, js) \<in> set (fold WriteJob writes []). JobId js = k"
    by (rule keyed_fold_WriteJob) simp
  then have "map JobId (map snd (fold WriteJob writes [])) = map fst (fold WriteJob writes [])"
    by (rule keyed_map_snd)
  moreover have "distinct (map fst (fold WriteJob writes []))"
    by (rule distinct_fold_WriteJob) simp
  ultimately show ?thesis by (simp only:)
qed

lemma registry_values:
  "set (map snd (fold WriteJob writes [])) = ran (latestOf writes)"
proof -
  have "distinct (map fst (fold WriteJob writes []))"
    by (rule distinct_fold_WriteJob) simp
  then have "ran (map_of (fold WriteJob writes [])) = set (map snd (fold WriteJob writes []))"
    by (simp add: ran_distinct)
  then show ?thesis by (simp add: map_of_fold_WriteJob latestOf_def)
qed

lemma distinct_ids_filter:
  "distinct (map JobId xs) \<Longrightarrow> distinct (map JobId (filter P xs))"
  by (induction xs) auto

text \<open>
  Claim C9. Let the registry hold any sequence of writes. The active-jobs field that
  \<open>getActiveJobsByType\<close> builds for a notification about \<open>jobState\<close> and a job type
  is the concatenation of one entry per job of a list \<open>listed\<close>; the jobs of that list
  are exactly the registered states (the state last written for each Id) that are active,
  of that type and whose Id is not that of \<open>jobState\<close>; no Id occurs twice in it; and the
  field is reported as found exactly when the list is not empty.
\<close>

theorem getActiveJobsByType_exact:
  assumes "cache n = fold WriteJob writes []"
  shows "\<exists>listed.
           Value (fst (getActiveJobsByType m n jobState jobType))
             = concat (map (activeJobLine m) listed)
         \<and> snd (getActiveJobsByType m n jobState jobType) = (listed \<noteq> [])
         \<and> distinct (map JobId listed)
         \<and> set listed = {js \<in> ran (latestOf writes).
                            IsActiveJob m js \<and> Type js = jobType \<and> JobId js \<noteq> JobId jobState}"
proof -
  let ?active = "JobsByMatcher (cache n) (\<lambda>js. IsActiveJob m js \<and> Type js = jobType)"
  let ?listed = "filter (\<lambda>a. JobId a \<noteq> JobId jobState) ?active"
  have msg: "Value (fst (getActiveJobsByType m n jobState jobType))
               = concat (map (activeJobLine m) ?listed)"
    by (simp add: getActiveJobsByType_def Let_def activeJobsMessage_concat)
  have found: "snd (getActiveJobsByType m n jobState jobType) = (?listed \<noteq> [])"
    by (simp only: getActiveJobsByType_def Let_def activeJobsMessage_concat snd_conv
          length_greater_0_conv append_Nil lines_empty)
  have dist: "distinct (map JobId ?listed)"
    unfolding JobsByMatcher_def assms
    by (intro distinct_ids_filter registry_distinct_ids)
  have "set ?listed = {js \<in> set (map snd (cache n)).
          IsActiveJob m js \<and> Type js = jobType \<and> JobId js \<noteq> JobId jobState}"
    by (auto simp: JobsByMatcher_def)
  then have mem: "set ?listed = {js \<in> ran (latestOf writes).
          IsActiveJob m js \<and> Type js = jobType \<and> JobId js \<noteq> JobId jobState}"
    by (simp only: assms registry_values)
  from msg found dist mem show ?thesis by blast
qed

text \<open>
  The theorem at the registry after four writes (job-1 queued, job-2 started, job-1
  started, job-3 completed) and a notification about job-1: the field of the smoke tests
  names job-2 alone.
\<close>

theorem getActiveJobsByType_exact_witness:
  "getActiveJobsByType manager0 (notifs0 Map.empty) (jobState0 ''job-1'' JobStage_Started 2)
       JobType_TestSmoke
     = (\<lparr>Name = ''Tests In Progress:'', Value = ''job-2 (started)'' @ [newline]\<rparr>, True)
   \<and> (\<exists>listed.
         Value (fst (getActiveJobsByType manager0 (notifs0 Map.empty)
                       (jobState0 ''job-1'' JobStage_Started 2) JobType_TestSmoke))
           = concat (map (activeJobLine manager0) listed)
       \<and> snd (getActiveJobsByType manager0 (notifs0 Map.empty)
                 (jobState0 ''job-1'' JobStage_Started 2) JobType_TestSmoke) = (listed \<noteq> [])
       \<and> distinct (map JobId listed)
       \<and> set listed = {js \<in> ran (latestOf writes0).
                          IsActiveJob manager0 js \<and> Type js = JobType_TestSmoke
                          \<and> JobId js \<noteq> JobId (jobState0 ''job-1'' JobStage_Started 2)})"
proof
  show "getActiveJobsByType manager0 (notifs0 Map.empty) (jobState0 ''job-1'' JobStage_Started 2)
       JobType_TestSmoke
     = (\<lparr>Name = ''Tests In Progress:'', Value = ''job-2 (started)'' @ [newline]\<rparr>, True)"
    by (simp add: getActiveJobsByType_def JobsByMatcher_def WriteJob_def activeJobLine_def
          fixture_defs)
next
  have "cache (notifs0 Map.empty) = fold WriteJob writes0 []"
    by (simp add: notifs0_def)
  from getActiveJobsByType_exact [OF this]
  show "\<exists>listed.
         Value (fst (getActiveJobsByType manager0 (notifs0 Map.empty)
                       (jobState0 ''job-1'' JobStage_Started 2) JobType_TestSmoke))
           = concat (map (activeJobLine manager0) listed)
       \<and> snd (getActiveJobsByType manager0 (notifs0 Map.empty)
                 (jobState0 ''job-1'' JobStage_Started 2) JobType_TestSmoke) = (listed \<noteq> [])
       \<and> distinct (map JobId listed)
       \<and> set listed = {js \<in> ran (latestOf writes0).
                          IsActiveJob manager0 js \<and> Type js = JobType_TestSmoke
                          \<and> JobId js \<noteq> JobId (jobState0 ''job-1'' JobStage_Started 2)}" .
qed

section \<open>Commit hashes in a notification\<close>

lemma getComponentMsg_short:
  "length sha < 12 \<Longrightarrow> getComponentMsg m component sha = None"
  by (simp add: getComponentMsg_def)

lemma component_msgs_short:
  assumes "component \<in> {DeployComponent_Ceramic m, DeployComponent_Cas m, DeployComponent_Ipfs m}"
    and "length (hashOf commitHashes component) < 12"
  shows "Option.bind (getComponentMsg m (DeployComponent_Ceramic m)
                         (hashOf commitHashes (DeployComponent_Ceramic m)))
            (\<lambda>ceramicMsg.
          Option.bind (getComponentMsg m (DeployComponent_Cas m)
                         (hashOf commitHashes (DeployComponent_Cas m)))
            (\<lambda>casMsg.
          Option.bind (getComponentMsg m (DeployComponent_Ipfs m)
                         (hashOf commitHashes (DeployComponent_Ipfs m)))
            (\<lambda>ipfsMsg.
          Some (ceramicMsg @ [newline] @ casMsg @ [newline] @ ipfsMsg)))) = None"
  using assms by (auto simp: getComponentMsg_short split: Option.bind_splits)

text \<open>
  Claim C10, as the code has it. Let \<open>GetDeployHashes\<close> succeed, and let one of the
  three components (ceramic, cas, ipfs) have a hash of fewer than 12 characters in the
  mapping, the empty string when the component is absent from it. Unless the job is a
  deploy of that very component with a valid hash of its own of at least 12 characters,
  which replaces the entry before the messages are built, the slice \<open>sha[:12]\<close> of
  the component message is out of range and \<open>getNotifFields\<close> panics: no fields are
  produced.
\<close>

theorem getNotifFields_short_hash_panics:
  assumes "GetDeployHashes (notifs_db n) = Inr fromDb"
    and "component \<in> {DeployComponent_Ceramic m, DeployComponent_Cas m, DeployComponent_Ipfs m}"
    and "length (hashOf fromDb component) < 12"
    and "\<forall>sha. Type jobState = JobType_Deploy
               \<and> mapIndex (Params jobState) JobParam_Sha = Some (VString sha)
               \<and> MatchString l (CommitHashRegex m) sha
               \<and> mapIndex (Params jobState) JobParam_Component = Some (VString component)
             \<longrightarrow> length sha < 12"
  shows "getComponentMsg m component (hashOf fromDb component) = None
       \<and> getDeployHashes l m n jobState = None
       \<and> getNotifFields l m now n jobState = None"
proof -
  have short: "\<And>commitHashes. length (hashOf commitHashes component) < 12 \<Longrightarrow>
      Option.bind (Some commitHashes)
        (\<lambda>commitHashes.
          Option.bind (getComponentMsg m (DeployComponent_Ceramic m)
                         (hashOf commitHashes (DeployComponent_Ceramic m)))
            (\<lambda>ceramicMsg.
          Option.bind (getComponentMsg m (DeployComponent_Cas m)
                         (hashOf commitHashes (DeployComponent_Cas m)))
            (\<lambda>casMsg.
          Option.bind (getComponentMsg m (DeployComponent_Ipfs m)
                         (hashOf commitHashes (DeployComponent_Ipfs m)))
            (\<lambda>ipfsMsg.
          Some (ceramicMsg @ [newline] @ casMsg @ [newline] @ ipfsMsg))))) = None"
    using component_msgs_short[OF assms(2)] by simp
  have replaced: "\<And>c sha commitHashes. Type jobState = JobType_Deploy \<Longrightarrow>
      mapIndex (Params jobState) JobParam_Sha = Some (VString sha) \<Longrightarrow>
      MatchString l (CommitHashRegex m) sha \<Longrightarrow>
      mapIndex (Params jobState) JobParam_Component = Some (VString c) \<Longrightarrow>
      mapAssign fromDb c sha = Some commitHashes \<Longrightarrow>
      length (hashOf commitHashes component) < 12"
    using assms(3,4) by (cases fromDb) (auto simp: hashOf_def mapIndex_def)
  have hashes: "getDeployHashes l m n jobState = None"
    unfolding getDeployHashes_def assms(1) sum.case
    using short[OF assms(3)] short[OF replaced]
    by (auto split: option.splits val.splits Option.bind_splits)
  then have "getNotifFields l m now n jobState = None"
    by (simp add: getNotifFields_def)
  with hashes show ?thesis
    using assms(3) by (simp add: getComponentMsg_short)
qed

text \<open>
  The theorem at a smoke-test job when the mapping has no entry for ipfs, and at a deploy
  job of cas whose own hash is not valid when the mapping's entry for cas has 7 characters.
\<close>

theorem getNotifFields_short_hash_panics_witness:
  "getNotifFields golib0 manager0 100
       (notifs0 [''ceramic'' \<mapsto> ''0123456789abcdef0123456789abcdef01234567'',
                 ''cas'' \<mapsto> ''89abcdef0123456789abcdef0123456789abcdef''])
       (jobState0 ''job-1'' JobStage_Started 2) = None
   \<and> getNotifFields golib0 manager0 100 (notifs0 hashes0) (deployJob0 ''latest'') = None"
  using getNotifFields_short_hash_panics
          [where n = "notifs0 [''ceramic'' \<mapsto> ''0123456789abcdef0123456789abcdef01234567'',
                               ''cas'' \<mapsto> ''89abcdef0123456789abcdef0123456789abcdef'']"
             and fromDb = "MakeMap
                           [''ceramic'' \<mapsto> ''0123456789abcdef0123456789abcdef01234567'',
                            ''cas'' \<mapsto> ''89abcdef0123456789abcdef0123456789abcdef'']"
             and component = "''ipfs''" and m = manager0 and l = golib0 and now = 100
             and jobState = "jobState0 ''job-1'' JobStage_Started 2"]
        getNotifFields_short_hash_panics
          [where n = "notifs0 hashes0" and fromDb = "MakeMap hashes0"
             and component = "''cas''" and m = manager0 and l = golib0 and now = 100
             and jobState = "deployJob0 ''latest''"]
  by (simp add: fixture_defs hashOf_def mapIndex_def)

text \<open>
  Claim C10 as stated fails for a deploy job of cas with a valid hash of its own:
  \<open>GetDeployHashes\<close> succeeds and the hash it returns for cas has 7 characters, yet
  the job's hash replaces that entry, every slice is in range and the fields are produced,
  with the job's hash in the message for cas.
\<close>

theorem getNotifFields_own_hash_no_panic:
  "GetDeployHashes (notifs_db (notifs0 hashes0)) = Inr (MakeMap hashes0)
   \<and> length (hashOf (MakeMap hashes0) ''cas'') < 12
   \<and> getDeployHashes golib0 manager0 (notifs0 hashes0)
        (deployJob0 ''fedcba9876543210fedcba9876543210fedcba98'')
     = Some (''[ceramic (0123456789ab)](https://github.com/ceramicnetwork/ceramic/commit/0123456789abcdef0123456789abcdef01234567)''
             @ [newline]
             @ ''[cas (fedcba987654)](https://github.com/ceramicnetwork/cas/commit/fedcba9876543210fedcba9876543210fedcba98)''
             @ [newline]
             @ ''[ipfs (456789abcdef)](https://github.com/ceramicnetwork/ipfs/commit/456789abcdef0123456789abcdef0123456789ab)'')
   \<and> getNotifFields golib0 manager0 100 (notifs0 hashes0)
        (deployJob0 ''fedcba9876543210fedcba9876543210fedcba98'') \<noteq> None"
proof -
  have hashes: "getDeployHashes golib0 manager0 (notifs0 hashes0)
        (deployJob0 ''fedcba9876543210fedcba9876543210fedcba98'')
     = Some (''[ceramic (0123456789ab)](https://github.com/ceramicnetwork/ceramic/commit/0123456789abcdef0123456789abcdef01234567)''
             @ [newline]
             @ ''[cas (fedcba987654)](https://github.com/ceramicnetwork/cas/commit/fedcba9876543210fedcba9876543210fedcba98)''
             @ [newline]
             @ ''[ipfs (456789abcdef)](https://github.com/ceramicnetwork/ipfs/commit/456789abcdef0123456789abcdef0123456789ab)'')"
    by (simp add: getDeployHashes_def getComponentMsg_def hashOf_def mapIndex_def fixture_defs)
  have "getNotifFields golib0 manager0 100 (notifs0 hashes0)
        (deployJob0 ''fedcba9876543210fedcba9876543210fedcba98'') \<noteq> None"
    unfolding getNotifFields_def hashes by (simp add: Let_def)
  with hashes show ?thesis
    by (simp add: hashOf_def mapIndex_def fixture_defs)
qed

end
